theory Spec2Isabelle
  imports Main "HOL-Library.Sublist"
begin

section \<open>Values, dictionaries and exceptions\<close>

text \<open>
  The integration is Python. Events and the hub's metadata are dictionaries decoded from
  the vendor's JSON, so a value is one of the JSON shapes. Numbers are kept as integers.
\<close>

datatype jval =
    JNull
  | JBool bool
  | JNum int
  | JStr string
  | JList "jval list"
  | JObj "(string \<times> jval) list"

type_synonym pydict = "(string \<times> jval) list"

text \<open>
  The exceptions the modelled code can meet. \<open>KeyError\<close> and \<open>TypeError\<close> come from the
  code's own subscripts and \<open>in\<close> tests; \<open>OtherException\<close> is any other subclass of
  \<open>Exception\<close> (a vendor call that fails), \<open>NonException\<close> a \<open>BaseException\<close> outside
  \<open>Exception\<close>, which \<open>except Exception\<close> does not catch.
\<close>

datatype error =
    KeyError string
  | TypeError
  | OtherException string
  | NonException string

fun is_Exception :: "error \<Rightarrow> bool" where
  "is_Exception (KeyError k) = True"
| "is_Exception TypeError = True"
| "is_Exception (OtherException n) = True"
| "is_Exception (NonException n) = False"

text \<open>\<open>d[k]\<close>: the value stored under the key, \<open>KeyError\<close> when the key is missing.\<close>

definition subscript :: "pydict \<Rightarrow> string \<Rightarrow> error + jval" where
  "subscript d k = (case map_of d k of None \<Rightarrow> Inl (KeyError k) | Some v \<Rightarrow> Inr v)"

text \<open>
  \<open>s in v\<close> with a string on the left: a substring test when \<open>v\<close> is a string, membership
  when it is a list, key membership when it is a dictionary, and \<open>TypeError\<close> for a value
  that is not a container.
\<close>

fun str_in :: "string \<Rightarrow> jval \<Rightarrow> error + bool" where
  "str_in s (JStr t) = Inr (sublist s t)"
| "str_in s (JList xs) = Inr (JStr s \<in> set xs)"
| "str_in s (JObj kvs) = Inr (s \<in> fst ` set kvs)"
| "str_in s JNull = Inl TypeError"
| "str_in s (JBool b) = Inl TypeError"
| "str_in s (JNum n) = Inl TypeError"

text \<open>
  \<open>v in t\<close> with a string on the right: only a string can be tested against a string, any
  other left operand raises \<open>TypeError\<close>.
\<close>

fun in_str :: "jval \<Rightarrow> string \<Rightarrow> error + bool" where
  "in_str (JStr s) t = Inr (sublist s t)"
| "in_str JNull t = Inl TypeError"
| "in_str (JBool b) t = Inl TypeError"
| "in_str (JNum n) t = Inl TypeError"
| "in_str (JList xs) t = Inl TypeError"
| "in_str (JObj kvs) t = Inl TypeError"

text \<open>Truth value of a value, as \<open>not\<close> and \<open>or\<close> read it.\<close>

fun truthy :: "jval \<Rightarrow> bool" where
  "truthy JNull = False"
| "truthy (JBool b) = b"
| "truthy (JNum n) = (n \<noteq> 0)"
| "truthy (JStr s) = (s \<noteq> [])"
| "truthy (JList xs) = (xs \<noteq> [])"
| "truthy (JObj kvs) = (kvs \<noteq> [])"

definition py_or :: "jval \<Rightarrow> jval \<Rightarrow> jval" where
  "py_or a b = (if truthy a then a else b)"

section \<open>Constants\<close>

text \<open>\<open>ATTR_MODE\<close> is imported from \<open>homeassistant.const\<close>.\<close>

definition ATTR_MODE :: string where
  "ATTR_MODE = ''mode''"

text \<open>
  The other constants are imported from the integration's \<open>const\<close> module. The functions
  below take them as a parameter, and the theorems hold for every value of them that meets
  the stated hypotheses.
\<close>

record constants =
  ATTR_ALERT :: string
  ATTR_CAM_OFFLINE :: string
  ATTR_CAM_ONLINE :: string
  ATTR_CAMECT_EVENT :: string
  ATTR_MODE_DEFAULT :: string
  ATTR_MODE_HOME :: string
  ATTR_MODE_REASON :: string
  ATTR_UNKNOWN_OBJ :: string

definition spec_consts :: constants where
  \<comment> \<open>Modelled from the spec: the module \<open>const\<close> is not among the sources. The spec names
      the two modes \<open>default\<close> and \<open>home\<close>, the event tags alert, offline and online and the
      sentinel label unknown; it gives no text for the bus event name and the reason
      string, which are placeholders here. Used for the concrete instances only.\<close>
  "spec_consts = \<lparr>
     ATTR_ALERT = ''alert'',
     ATTR_CAM_OFFLINE = ''offline'',
     ATTR_CAM_ONLINE = ''online'',
     ATTR_CAMECT_EVENT = ''camect_event'',
     ATTR_MODE_DEFAULT = ''default'',
     ATTR_MODE_HOME = ''home'',
     ATTR_MODE_REASON = ''reason'',
     ATTR_UNKNOWN_OBJ = ''unknown'' \<rparr>"

section \<open>Camera records and the hub session\<close>

text \<open>
  An entity object that observes another one is held by its entity id. A \<open>datetime\<close> is
  the number of microseconds since a fixed instant, so that \<open>timedelta(seconds=20)\<close> is
  20000000. The flags copied from the vendor's JSON keep the JSON value.
\<close>

record Camera =
  device_id :: string
  entity_id :: string
  is_alert_disabled :: jval
  disabled :: jval
  alert_switch :: "string list"
  motion_sensor :: "string list"
  last_motion :: "int option"
  last_detected_obj :: jval
  offline :: bool

record CamectHub =
  id' :: string
  entity_id' :: string
  info :: pydict
  mode :: string
  modeswitch :: "string list"
  cameras :: "Camera list"

subsection \<open>Camera projections (\<open>camera.py\<close>)\<close>

definition Camera_is_streaming :: "Camera \<Rightarrow> bool" where
  "Camera_is_streaming cam = (\<not> truthy (disabled cam) \<and> \<not> offline cam)"

definition Camera_is_recording :: "Camera \<Rightarrow> bool" where
  "Camera_is_recording cam = (\<not> truthy (disabled cam) \<and> \<not> offline cam)"

definition Camera_is_on :: "Camera \<Rightarrow> bool" where
  "Camera_is_on cam = (\<not> truthy (disabled cam) \<and> \<not> offline cam)"

definition Camera_available :: "Camera \<Rightarrow> bool" where
  "Camera_available cam = (\<not> truthy (disabled cam) \<and> \<not> offline cam)"

subsection \<open>Motion sensor (\<open>binary_sensor.py\<close>)\<close>

text \<open>\<open>now\<close> is the reading of \<open>datetime.now()\<close> taken by the call.\<close>

definition CameraMotionSensor_is_on :: "int \<Rightarrow> Camera \<Rightarrow> bool" where
  "CameraMotionSensor_is_on now cam =
     (case last_motion cam of
        None \<Rightarrow> False
      | Some t \<Rightarrow> if t > now - 20000000 then True else False)"

subsection \<open>Alert switch (\<open>switch.py\<close>)\<close>

definition CameraAlertSwitch_is_on :: "Camera \<Rightarrow> bool" where
  "CameraAlertSwitch_is_on cam = (\<not> truthy (is_alert_disabled cam))"

definition CameraAlertSwitch_available :: "Camera \<Rightarrow> bool" where
  "CameraAlertSwitch_available cam = Camera_available cam"

text \<open>
  The calls to the vendor client and to the host, and the log records, in the order they
  are made. A vendor call carries its arguments; \<open>ScheduleUpdate\<close> is
  \<open>schedule_update_ha_state()\<close> on the entity with that id; a log record carries its
  format string.
\<close>

datatype device_ref =
    CameraDevice string jval
  | HubDevice string

datatype effect =
    LogInfo string
  | LogWarning string
  | LogException error
  | ScheduleUpdate string
  | BusFire string device_ref string pydict
  | ApiSetMode string string
  | ApiEnableAlert string string
  | ApiDisableAlert string string

text \<open>
  \<open>async_turn_on\<close> and \<open>async_turn_off\<close> make one vendor call and nothing else. \<open>api\<close> is
  what the vendor call raises, if it raises. The result is the camera record after the
  call, the calls made, and the exception that leaves the method.
\<close>

definition CameraAlertSwitch_async_turn_on ::
  "constants \<Rightarrow> error option \<Rightarrow> Camera \<Rightarrow> Camera \<times> effect list \<times> error option" where
  "CameraAlertSwitch_async_turn_on c api cam =
     (cam, [ApiEnableAlert (device_id cam) (ATTR_MODE_REASON c)], api)"

definition CameraAlertSwitch_async_turn_off ::
  "constants \<Rightarrow> error option \<Rightarrow> Camera \<Rightarrow> Camera \<times> effect list \<times> error option" where
  "CameraAlertSwitch_async_turn_off c api cam =
     (cam, [ApiDisableAlert (device_id cam) (ATTR_MODE_REASON c)], api)"

subsection \<open>Hub session (\<open>camecthub.py\<close>)\<close>

text \<open>\<open>update_hub_info\<close> stores what \<open>api.get_info\<close> returned.\<close>

definition update_hub_info :: "pydict \<Rightarrow> CamectHub \<Rightarrow> CamectHub" where
  "update_hub_info fetched hub = hub\<lparr>info := fetched\<rparr>"

text \<open>
  \<open>update_mode_property\<close>. A JSON value is equal to one of the two mode strings only when
  it is that string.
\<close>

definition update_mode_property :: "constants \<Rightarrow> CamectHub \<Rightarrow> error + CamectHub" where
  "update_mode_property c hub =
     (case subscript (info hub) ''mode'' of
        Inl e \<Rightarrow> Inl e
      | Inr m \<Rightarrow>
          (case m of
             JStr s \<Rightarrow>
               if s = ATTR_MODE_DEFAULT c \<or> s = ATTR_MODE_HOME c
               then Inr (hub\<lparr>mode := s\<rparr>)
               else Inr (hub\<lparr>mode := ATTR_MODE_DEFAULT c\<rparr>)
           | _ \<Rightarrow> Inr (hub\<lparr>mode := ATTR_MODE_DEFAULT c\<rparr>)))"

text \<open>
  \<open>fire_camera_event\<close>. The device id put on the bus is an f-string over the hub's id and
  the event's \<open>cam_id\<close>; it is kept as its parts (\<open>CameraDevice\<close>), or is the hub's own
  entity id when \<open>cam_id\<close> is \<open>None\<close>.
\<close>

definition fire_camera_event ::
  "constants \<Rightarrow> CamectHub \<Rightarrow> string \<Rightarrow> pydict \<Rightarrow> error + effect list" where
  "fire_camera_event c hub evt_type evt =
     (case subscript evt ''cam_id'' of
        Inl e \<Rightarrow> Inl e
      | Inr cid \<Rightarrow>
          (let cam_entity_id =
                 (if cid \<noteq> JNull then CameraDevice (id' hub) cid
                  else HubDevice (entity_id' hub))
           in Inr [LogInfo ''Firing camera event to bus: %s'',
                   BusFire (ATTR_CAMECT_EVENT c) cam_entity_id evt_type evt]))"

text \<open>
  The three loops over \<open>self.cameras\<close>. Each returns the camera records as the loop left
  them, the calls it made, and the exception that stopped it, if one did: a record
  written before the exception keeps what was written.
\<close>

fun alert_loop ::
  "constants \<Rightarrow> int \<Rightarrow> pydict \<Rightarrow> Camera list \<Rightarrow> Camera list \<times> effect list \<times> error option" where
  "alert_loop c now evt [] = ([], [], None)"
| "alert_loop c now evt (cam # cams) =
     (case subscript evt ''cam_id'' of
        Inl e \<Rightarrow> (cam # cams, [], Some e)
      | Inr cid \<Rightarrow>
          (case in_str cid (device_id cam) of
             Inl e \<Rightarrow> (cam # cams, [], Some e)
           | Inr False \<Rightarrow>
               (case alert_loop c now evt cams of
                  (cams', effs, r) \<Rightarrow> (cam # cams', effs, r))
           | Inr True \<Rightarrow>
               (let cam1 = cam\<lparr>last_motion := Some now\<rparr> in
                case subscript evt ''detected_obj'' of
                  Inl e \<Rightarrow> (cam1 # cams, [], Some e)
                | Inr obj \<Rightarrow>
                    (let cam2 = cam1\<lparr>last_detected_obj :=
                                       py_or obj (JStr (ATTR_UNKNOWN_OBJ c))\<rparr> in
                     case alert_loop c now evt cams of
                       (cams', effs, r) \<Rightarrow>
                         (cam2 # cams',
                          ScheduleUpdate (entity_id cam2)
                            # map ScheduleUpdate (motion_sensor cam2) @ effs,
                          r)))))"

text \<open>
  The offline and the online loop differ in the value they store only, which is the first
  argument here.
\<close>

fun offline_loop ::
  "bool \<Rightarrow> pydict \<Rightarrow> Camera list \<Rightarrow> Camera list \<times> effect list \<times> error option" where
  "offline_loop flag evt [] = ([], [], None)"
| "offline_loop flag evt (cam # cams) =
     (case subscript evt ''cam_id'' of
        Inl e \<Rightarrow> (cam # cams, [], Some e)
      | Inr cid \<Rightarrow>
          (case in_str cid (device_id cam) of
             Inl e \<Rightarrow> (cam # cams, [], Some e)
           | Inr False \<Rightarrow>
               (case offline_loop flag evt cams of
                  (cams', effs, r) \<Rightarrow> (cam # cams', effs, r))
           | Inr True \<Rightarrow>
               (let cam1 = cam\<lparr>offline := flag\<rparr> in
                case offline_loop flag evt cams of
                  (cams', effs, r) \<Rightarrow>
                    (cam1 # cams', ScheduleUpdate (entity_id cam1) # effs, r))))"

text \<open>A loop over the cameras followed by \<open>fire_camera_event\<close>.\<close>

definition then_fire ::
  "constants \<Rightarrow> CamectHub \<Rightarrow> effect list \<Rightarrow> string \<Rightarrow> pydict
     \<Rightarrow> Camera list \<times> effect list \<times> error option
     \<Rightarrow> CamectHub \<times> effect list \<times> error option" where
  "then_fire c hub pre evt_type evt looped =
     (case looped of
        (cams', effs, r) \<Rightarrow>
          (let hub1 = hub\<lparr>cameras := cams'\<rparr> in
           case r of
             Some e \<Rightarrow> (hub1, pre @ effs, Some e)
           | None \<Rightarrow>
               (case fire_camera_event c hub1 evt_type evt of
                  Inl e \<Rightarrow> (hub1, pre @ effs, Some e)
                | Inr fired \<Rightarrow> (hub1, pre @ effs @ fired, None))))"

text \<open>The branch of an event whose type contains \<open>ATTR_MODE\<close>.\<close>

definition mode_event :: "constants \<Rightarrow> CamectHub \<Rightarrow> pydict \<Rightarrow> CamectHub \<times> effect list \<times> error option" where
  "mode_event c hub evt =
     (case subscript evt ''desc'' of
        Inl e \<Rightarrow> (hub, [], Some e)
      | Inr d \<Rightarrow>
          (case d of
             JStr s \<Rightarrow>
               if s = ATTR_MODE_DEFAULT c \<or> s = ATTR_MODE_HOME c
               then (case str_in (mode hub) d of
                       Inl e \<Rightarrow> (hub, [], Some e)
                     | Inr True \<Rightarrow> (hub, [], None)
                     | Inr False \<Rightarrow>
                         (hub\<lparr>mode := s\<rparr>, map ScheduleUpdate (modeswitch hub), None))
               else (hub, [LogWarning ''Received mode change event to unknown mode: %s''], None)
           | _ \<Rightarrow> (hub, [LogWarning ''Received mode change event to unknown mode: %s''], None)))"

text \<open>The branches of an offline and of an online event: the log call reads two fields first.\<close>

definition offline_event ::
  "constants \<Rightarrow> CamectHub \<Rightarrow> pydict \<Rightarrow> CamectHub \<times> effect list \<times> error option" where
  "offline_event c hub evt =
     (case subscript evt ''cam_name'' of
        Inl e \<Rightarrow> (hub, [], Some e)
      | Inr nm \<Rightarrow>
          (case subscript evt ''cam_id'' of
             Inl e \<Rightarrow> (hub, [], Some e)
           | Inr cid \<Rightarrow>
               then_fire c hub [LogInfo ''Camera %s (ID %s) went offline'']
                 (ATTR_CAM_OFFLINE c) evt (offline_loop True evt (cameras hub))))"

definition online_event ::
  "constants \<Rightarrow> CamectHub \<Rightarrow> pydict \<Rightarrow> CamectHub \<times> effect list \<times> error option" where
  "online_event c hub evt =
     (case subscript evt ''cam_name'' of
        Inl e \<Rightarrow> (hub, [], Some e)
      | Inr nm \<Rightarrow>
          (case subscript evt ''cam_id'' of
             Inl e \<Rightarrow> (hub, [], Some e)
           | Inr cid \<Rightarrow>
               then_fire c hub [LogInfo ''Camera %s (ID %s) came online'']
                 (ATTR_CAM_ONLINE c) evt (offline_loop False evt (cameras hub))))"

text \<open>
  The body of the \<open>try\<close> in \<open>handle_camect_event\<close>: the hub after it, the calls made, and
  the exception raised, if one was. \<open>now\<close> is the reading of \<open>datetime.now()\<close> during the
  call; the alert loop reads the clock once for each camera it writes, and all these reads
  are taken to be the same instant.
\<close>

definition handle_body ::
  "constants \<Rightarrow> int \<Rightarrow> CamectHub \<Rightarrow> pydict \<Rightarrow> CamectHub \<times> effect list \<times> error option" where
  "handle_body c now hub evt =
     (case subscript evt ''type'' of
        Inl e \<Rightarrow> (hub, [], Some e)
      | Inr ty \<Rightarrow>
          (case str_in ATTR_MODE ty of
             Inl e \<Rightarrow> (hub, [], Some e)
           | Inr True \<Rightarrow> mode_event c hub evt
           | Inr False \<Rightarrow>
          (case str_in (ATTR_ALERT c) ty of
             Inl e \<Rightarrow> (hub, [], Some e)
           | Inr True \<Rightarrow>
               then_fire c hub [] (ATTR_ALERT c) evt (alert_loop c now evt (cameras hub))
           | Inr False \<Rightarrow>
          (case str_in (ATTR_CAM_OFFLINE c) ty of
             Inl e \<Rightarrow> (hub, [], Some e)
           | Inr True \<Rightarrow> offline_event c hub evt
           | Inr False \<Rightarrow>
          (case str_in (ATTR_CAM_ONLINE c) ty of
             Inl e \<Rightarrow> (hub, [], Some e)
           | Inr True \<Rightarrow> online_event c hub evt
           | Inr False \<Rightarrow>
               (hub, [LogWarning ''Got an unhandled event type from Camect: %s''], None))))))"

text \<open>
  \<open>handle_camect_event\<close>: the body under \<open>except Exception\<close>, whose handler logs the
  exception. The third component is the exception that reaches the caller.
\<close>

definition handle_camect_event ::
  "constants \<Rightarrow> int \<Rightarrow> CamectHub \<Rightarrow> pydict \<Rightarrow> CamectHub \<times> effect list \<times> error option" where
  "handle_camect_event c now hub evt =
     (case handle_body c now hub evt of
        (hub', effs, None) \<Rightarrow> (hub', effs, None)
      | (hub', effs, Some ex) \<Rightarrow>
          if is_Exception ex then (hub', effs @ [LogException ex], None)
          else (hub', effs, Some ex))"

subsection \<open>Mode switch (\<open>switch.py\<close>)\<close>

definition HubModeSwitch_is_on :: "constants \<Rightarrow> CamectHub \<Rightarrow> bool" where
  "HubModeSwitch_is_on c hub = sublist (mode hub) (ATTR_MODE_DEFAULT c)"

text \<open>
  The vendor call, then \<open>update_mode_property\<close>; an exception of either leaves the
  method.
\<close>

definition HubModeSwitch_async_turn_on ::
  "constants \<Rightarrow> error option \<Rightarrow> CamectHub \<Rightarrow> CamectHub \<times> effect list \<times> error option" where
  "HubModeSwitch_async_turn_on c api hub =
     (let called = [ApiSetMode (ATTR_MODE_DEFAULT c) (ATTR_MODE_REASON c)] in
      case api of
        Some e \<Rightarrow> (hub, called, Some e)
      | None \<Rightarrow>
          (case update_mode_property c hub of
             Inl e \<Rightarrow> (hub, called, Some e)
           | Inr hub' \<Rightarrow> (hub', called, None)))"

definition HubModeSwitch_async_turn_off ::
  "constants \<Rightarrow> error option \<Rightarrow> CamectHub \<Rightarrow> CamectHub \<times> effect list \<times> error option" where
  "HubModeSwitch_async_turn_off c api hub =
     (let called = [ApiSetMode (ATTR_MODE_HOME c) (ATTR_MODE_REASON c)] in
      case api of
        Some e \<Rightarrow> (hub, called, Some e)
      | None \<Rightarrow>
          (case update_mode_property c hub of
             Inl e \<Rightarrow> (hub, called, Some e)
           | Inr hub' \<Rightarrow> (hub', called, None)))"

section \<open>Observations and sample values\<close>

text \<open>
  What a trace of calls did: the entities told to refresh, one entry per
  \<open>schedule_update_ha_state()\<close> call, and the events put on the host bus.
\<close>

fun scheduled :: "effect list \<Rightarrow> string list" where
  "scheduled [] = []"
| "scheduled (ScheduleUpdate i # effs) = i # scheduled effs"
| "scheduled (x # effs) = scheduled effs"

fun bus_fired :: "effect list \<Rightarrow> effect list" where
  "bus_fired [] = []"
| "bus_fired (BusFire n d t raw # effs) = BusFire n d t raw # bus_fired effs"
| "bus_fired (x # effs) = bus_fired effs"

text \<open>
  What the alert loop and the offline and online loops do to one camera record, and the
  refresh calls they make for it, when the event's \<open>cam_id\<close> is the string \<open>cid\<close>.
\<close>

definition alert_write :: "constants \<Rightarrow> int \<Rightarrow> string \<Rightarrow> jval \<Rightarrow> Camera \<Rightarrow> Camera" where
  "alert_write c now cid obj cam =
     (if sublist cid (device_id cam)
      then cam\<lparr>last_motion := Some now,
               last_detected_obj := (if truthy obj then obj else JStr (ATTR_UNKNOWN_OBJ c))\<rparr>
      else cam)"

definition alert_refresh :: "string \<Rightarrow> Camera \<Rightarrow> string list" where
  "alert_refresh cid cam =
     (if sublist cid (device_id cam) then entity_id cam # motion_sensor cam else [])"

definition offline_write :: "bool \<Rightarrow> string \<Rightarrow> Camera \<Rightarrow> Camera" where
  "offline_write flag cid cam =
     (if sublist cid (device_id cam) then cam\<lparr>offline := flag\<rparr> else cam)"

definition offline_refresh :: "string \<Rightarrow> Camera \<Rightarrow> string list" where
  "offline_refresh cid cam = (if sublist cid (device_id cam) then [entity_id cam] else [])"

text \<open>A hub in default mode with one mode switch and one enabled, online camera.\<close>

definition cam1 :: Camera where
  "cam1 = \<lparr>
     device_id = ''cam1'',
     entity_id = ''camera.camect_hub1_cam1'',
     is_alert_disabled = JBool False,
     disabled = JBool False,
     alert_switch = [''camera.camect_hub1_cam1_alert_disabled''],
     motion_sensor = [''camera.camect_hub1_cam1_motion''],
     last_motion = None,
     last_detected_obj = JStr [],
     offline = False \<rparr>"

definition hub1 :: CamectHub where
  "hub1 = \<lparr>
     id' = ''camect_hub1'',
     entity_id' = ''camect.camect_hub1'',
     info = [(''id'', JStr ''hub1''), (''mode'', JStr ''home'')],
     mode = ''default'',
     modeswitch = [''switch.camect_hub1_mode''],
     cameras = [cam1] \<rparr>"

text \<open>The same hub with the camera of the spec's matching example, \<open>cam456\<close>.\<close>

definition cam456 :: Camera where
  "cam456 = cam1\<lparr>device_id := ''cam456''\<rparr>"

definition hub123 :: CamectHub where
  "hub123 = hub1\<lparr>cameras := [cam456]\<rparr>"

section \<open>Auxiliary facts\<close>

subsection \<open>Every exception of the body is an \<open>Exception\<close>\<close>

lemma subscript_error: "subscript d k = Inl e \<Longrightarrow> is_Exception e"
  by (auto simp: subscript_def split: option.splits)

lemma str_in_error: "str_in s v = Inl e \<Longrightarrow> is_Exception e"
  by (cases v) auto

lemma in_str_error: "in_str v t = Inl e \<Longrightarrow> is_Exception e"
  by (cases v) auto

lemma alert_loop_error:
  "alert_loop c now evt cams = (cams', effs, Some e) \<Longrightarrow> is_Exception e"
proof (induction cams arbitrary: cams' effs)
  case Nil
  then show ?case by simp
next
  case (Cons cam cams)
  then show ?case
    by (auto simp: Let_def split: sum.splits bool.splits prod.splits
             dest: subscript_error in_str_error)
qed

lemma offline_loop_error:
  "offline_loop flag evt cams = (cams', effs, Some e) \<Longrightarrow> is_Exception e"
proof (induction cams arbitrary: cams' effs)
  case Nil
  then show ?case by simp
next
  case (Cons cam cams)
  then show ?case
    by (auto simp: Let_def split: sum.splits bool.splits prod.splits
             dest: subscript_error in_str_error)
qed

lemma then_fire_error:
  assumes "then_fire c hub pre t evt looped = (hub', effs, Some e)"
    and "\<And>cams' effs' e'. looped = (cams', effs', Some e') \<Longrightarrow> is_Exception e'"
  shows "is_Exception e"
  using assms
  by (auto simp: then_fire_def fire_camera_event_def Let_def
           split: prod.splits option.splits sum.splits dest: subscript_error)

lemma mode_event_error: "mode_event c hub evt = (hub', effs, Some e) \<Longrightarrow> is_Exception e"
  by (auto simp: mode_event_def split: sum.splits jval.splits if_splits bool.splits
           dest: subscript_error str_in_error)

lemma offline_event_error: "offline_event c hub evt = (hub', effs, Some e) \<Longrightarrow> is_Exception e"
  by (auto simp: offline_event_def split: sum.splits
           dest: subscript_error then_fire_error offline_loop_error)

lemma online_event_error: "online_event c hub evt = (hub', effs, Some e) \<Longrightarrow> is_Exception e"
  by (auto simp: online_event_def split: sum.splits
           dest: subscript_error then_fire_error offline_loop_error)

lemma handle_body_error: "handle_body c now hub evt = (hub', effs, Some e) \<Longrightarrow> is_Exception e"
  by (auto simp: handle_body_def split: sum.splits bool.splits
           dest: subscript_error str_in_error mode_event_error offline_event_error
                 online_event_error then_fire_error alert_loop_error)

subsection \<open>Reading a trace\<close>

lemma scheduled_map: "scheduled (map ScheduleUpdate is) = is"
  by (induction "is") simp_all

subsection \<open>The loops on an event whose \<open>cam_id\<close> is a string\<close>

lemma alert_loop_str:
  assumes "map_of evt ''cam_id'' = Some (JStr cid)"
    and "map_of evt ''detected_obj'' = Some obj"
  shows "alert_loop c now evt cams =
           (map (alert_write c now cid obj) cams,
            map ScheduleUpdate (concat (map (alert_refresh cid) cams)), None)"
  using assms
  by (induction cams)
     (simp_all add: subscript_def alert_write_def alert_refresh_def py_or_def Let_def)

lemma offline_loop_str:
  assumes "map_of evt ''cam_id'' = Some (JStr cid)"
  shows "offline_loop flag evt cams =
           (map (offline_write flag cid) cams,
            map ScheduleUpdate (concat (map (offline_refresh cid) cams)), None)"
  using assms
  by (induction cams)
     (simp_all add: subscript_def offline_write_def offline_refresh_def Let_def)

lemma alert_event_result:
  assumes "map_of evt ''type'' = Some ty"
    and "str_in ATTR_MODE ty = Inr False"
    and "str_in (ATTR_ALERT c) ty = Inr True"
    and "map_of evt ''cam_id'' = Some (JStr cid)"
    and "map_of evt ''detected_obj'' = Some obj"
  shows "handle_camect_event c now hub evt =
           (hub\<lparr>cameras := map (alert_write c now cid obj) (cameras hub)\<rparr>,
            map ScheduleUpdate (concat (map (alert_refresh cid) (cameras hub)))
              @ [LogInfo ''Firing camera event to bus: %s'',
                 BusFire (ATTR_CAMECT_EVENT c) (CameraDevice (id' hub) (JStr cid))
                   (ATTR_ALERT c) evt],
            None)"
  using assms
  by (simp add: handle_camect_event_def handle_body_def then_fire_def fire_camera_event_def
      alert_loop_str [OF assms(4,5)] subscript_def)

lemma offline_event_result:
  assumes "map_of evt ''type'' = Some ty"
    and "str_in ATTR_MODE ty = Inr False"
    and "str_in (ATTR_ALERT c) ty = Inr False"
    and "str_in (ATTR_CAM_OFFLINE c) ty = Inr True"
    and "map_of evt ''cam_id'' = Some (JStr cid)"
    and "map_of evt ''cam_name'' = Some nm"
  shows "handle_camect_event c now hub evt =
           (hub\<lparr>cameras := map (offline_write True cid) (cameras hub)\<rparr>,
            LogInfo ''Camera %s (ID %s) went offline''
              # map ScheduleUpdate (concat (map (offline_refresh cid) (cameras hub)))
              @ [LogInfo ''Firing camera event to bus: %s'',
                 BusFire (ATTR_CAMECT_EVENT c) (CameraDevice (id' hub) (JStr cid))
                   (ATTR_CAM_OFFLINE c) evt],
            None)"
  using assms
  by (simp add: handle_camect_event_def handle_body_def offline_event_def then_fire_def
      fire_camera_event_def offline_loop_str [OF assms(5)] subscript_def)

lemma online_event_result:
  assumes "map_of evt ''type'' = Some ty"
    and "str_in ATTR_MODE ty = Inr False"
    and "str_in (ATTR_ALERT c) ty = Inr False"
    and "str_in (ATTR_CAM_OFFLINE c) ty = Inr False"
    and "str_in (ATTR_CAM_ONLINE c) ty = Inr True"
    and "map_of evt ''cam_id'' = Some (JStr cid)"
    and "map_of evt ''cam_name'' = Some nm"
  shows "handle_camect_event c now hub evt =
           (hub\<lparr>cameras := map (offline_write False cid) (cameras hub)\<rparr>,
            LogInfo ''Camera %s (ID %s) came online''
              # map ScheduleUpdate (concat (map (offline_refresh cid) (cameras hub)))
              @ [LogInfo ''Firing camera event to bus: %s'',
                 BusFire (ATTR_CAMECT_EVENT c) (CameraDevice (id' hub) (JStr cid))
                   (ATTR_CAM_ONLINE c) evt],
            None)"
  using assms
  by (simp add: handle_camect_event_def handle_body_def online_event_def then_fire_def
      fire_camera_event_def offline_loop_str [OF assms(6)] subscript_def)

lemma alert_loop_nomatch:
  assumes "map_of evt ''cam_id'' = Some (JStr cid)"
    and "\<forall>cam \<in> set cams. \<not> sublist cid (device_id cam)"
  shows "alert_loop c now evt cams = (cams, [], None)"
  using assms by (induction cams) (simp_all add: subscript_def)

lemma alert_event_nomatch_result:
  assumes "map_of evt ''type'' = Some ty"
    and "str_in ATTR_MODE ty = Inr False"
    and "str_in (ATTR_ALERT c) ty = Inr True"
    and "map_of evt ''cam_id'' = Some (JStr cid)"
    and "\<forall>cam \<in> set (cameras hub). \<not> sublist cid (device_id cam)"
  shows "handle_camect_event c now hub evt =
           (hub,
            [LogInfo ''Firing camera event to bus: %s'',
             BusFire (ATTR_CAMECT_EVENT c) (CameraDevice (id' hub) (JStr cid))
               (ATTR_ALERT c) evt],
            None)"
  using assms(1-4)
  by (simp add: handle_camect_event_def handle_body_def then_fire_def fire_camera_event_def
      alert_loop_nomatch [OF assms(4,5)] subscript_def)

lemma mode_event_result:
  assumes "map_of evt ''type'' = Some ty" and "str_in ATTR_MODE ty = Inr True"
  shows "handle_camect_event c now hub evt =
           (case mode_event c hub evt of
              (hub', effs, None) \<Rightarrow> (hub', effs, None)
            | (hub', effs, Some ex) \<Rightarrow>
                if is_Exception ex then (hub', effs @ [LogException ex], None)
                else (hub', effs, Some ex))"
  using assms by (simp add: handle_camect_event_def handle_body_def subscript_def)

subsection \<open>The session's mode stays one of the two recognized modes\<close>

lemma then_fire_mode: "mode (fst (then_fire c hub pre t evt looped)) = mode hub"
  by (simp add: then_fire_def Let_def split: prod.splits option.splits sum.splits)

lemma mode_event_mode:
  "mode (fst (mode_event c hub evt)) = mode hub
   \<or> mode (fst (mode_event c hub evt)) \<in> {ATTR_MODE_DEFAULT c, ATTR_MODE_HOME c}"
  by (auto simp: mode_event_def split: sum.splits jval.splits bool.splits)

lemma handle_body_mode:
  "mode (fst (handle_body c now hub evt)) = mode hub
   \<or> mode (fst (handle_body c now hub evt)) \<in> {ATTR_MODE_DEFAULT c, ATTR_MODE_HOME c}"
  using mode_event_mode [of c hub evt]
  by (auto simp: handle_body_def offline_event_def online_event_def then_fire_mode
           split: sum.splits bool.splits)

lemma handle_camect_event_fst:
  "fst (handle_camect_event c now hub evt) = fst (handle_body c now hub evt)"
  by (simp add: handle_camect_event_def split: prod.splits option.splits)

lemma handle_camect_event_mode_recognized:
  assumes "mode hub \<in> {ATTR_MODE_DEFAULT c, ATTR_MODE_HOME c}"
  shows "mode (fst (handle_camect_event c now hub evt)) \<in> {ATTR_MODE_DEFAULT c, ATTR_MODE_HOME c}"
  using assms handle_body_mode [of c now hub evt] by (auto simp: handle_camect_event_fst)

lemma update_mode_property_mode_recognized:
  assumes "update_mode_property c hub = Inr hub'"
  shows "mode hub' \<in> {ATTR_MODE_DEFAULT c, ATTR_MODE_HOME c}"
  using assms
  by (auto simp: update_mode_property_def split: sum.splits jval.splits if_splits)

section \<open>The claims\<close>

text \<open>
  Claim C1. For every event dictionary, whatever keys it lacks and whatever its \<open>type\<close>
  holds, \<open>handle_camect_event\<close> lets no exception reach its caller; when the body of the
  \<open>try\<close> raised, the last thing the call did is log that exception.
\<close>

theorem handle_camect_event_contains:
  "snd (snd (handle_camect_event c now hub evt)) = None
   \<and> (\<forall>e. snd (snd (handle_body c now hub evt)) = Some e
          \<longrightarrow> last (fst (snd (handle_camect_event c now hub evt))) = LogException e)"
proof (cases "handle_body c now hub evt")
  case (fields hub' effs r)
  show ?thesis
  proof (cases r)
    case None
    with fields show ?thesis by (simp add: handle_camect_event_def)
  next
    case (Some e)
    with fields have "is_Exception e" by (auto dest: handle_body_error)
    with fields Some show ?thesis by (simp add: handle_camect_event_def)
  qed
qed

text \<open>An event with no key at all: the body raises \<open>KeyError\<close>, which is logged.\<close>

theorem handle_camect_event_contains_witness:
  "snd (snd (handle_body spec_consts 0 hub1 [])) = Some (KeyError ''type'')
   \<and> snd (snd (handle_camect_event spec_consts 0 hub1 [])) = None
   \<and> last (fst (snd (handle_camect_event spec_consts 0 hub1 []))) = LogException (KeyError ''type'')"
  using handle_camect_event_contains [of spec_consts 0 hub1 "[]"]
  by (simp add: handle_body_def subscript_def)

text \<open>
  Claim C2, as amended. The test is \<open>evt["cam_id"] in cam.device_id\<close>: a camera record is
  written by an alert, offline or online event exactly when the event's \<open>cam_id\<close>, a
  string, is a substring of the record's identifier. The event is classified by the first
  of the tags its \<open>type\<close> contains, and carries the fields its branch reads.
\<close>

theorem camera_id_matching:
  assumes "map_of evt ''type'' = Some ty"
    and "str_in ATTR_MODE ty = Inr False"
    and "map_of evt ''cam_id'' = Some (JStr cid)"
  shows "(str_in (ATTR_ALERT c) ty = Inr True \<and> map_of evt ''detected_obj'' = Some obj
            \<longrightarrow> cameras (fst (handle_camect_event c now hub evt))
                  = map (alert_write c now cid obj) (cameras hub))
       \<and> (str_in (ATTR_ALERT c) ty = Inr False \<and> str_in (ATTR_CAM_OFFLINE c) ty = Inr True
            \<and> map_of evt ''cam_name'' = Some nm
            \<longrightarrow> cameras (fst (handle_camect_event c now hub evt))
                  = map (offline_write True cid) (cameras hub))
       \<and> (str_in (ATTR_ALERT c) ty = Inr False \<and> str_in (ATTR_CAM_OFFLINE c) ty = Inr False
            \<and> str_in (ATTR_CAM_ONLINE c) ty = Inr True \<and> map_of evt ''cam_name'' = Some nm
            \<longrightarrow> cameras (fst (handle_camect_event c now hub evt))
                  = map (offline_write False cid) (cameras hub))"
proof (intro conjI impI)
  assume "str_in (ATTR_ALERT c) ty = Inr True \<and> map_of evt ''detected_obj'' = Some obj"
  then show "cameras (fst (handle_camect_event c now hub evt))
               = map (alert_write c now cid obj) (cameras hub)"
    using assms by (simp add: alert_event_result)
next
  assume "str_in (ATTR_ALERT c) ty = Inr False \<and> str_in (ATTR_CAM_OFFLINE c) ty = Inr True
            \<and> map_of evt ''cam_name'' = Some nm"
  then show "cameras (fst (handle_camect_event c now hub evt))
               = map (offline_write True cid) (cameras hub)"
    using assms by (simp add: offline_event_result)
next
  assume "str_in (ATTR_ALERT c) ty = Inr False \<and> str_in (ATTR_CAM_OFFLINE c) ty = Inr False
            \<and> str_in (ATTR_CAM_ONLINE c) ty = Inr True \<and> map_of evt ''cam_name'' = Some nm"
  then show "cameras (fst (handle_camect_event c now hub evt))
               = map (offline_write False cid) (cameras hub)"
    using assms by (simp add: online_event_result)
qed

text \<open>
  Events with \<open>cam_id = "cam"\<close> reach the record \<open>cam1\<close>; one with \<open>cam_id = "cam12"\<close>
  does not.
\<close>

theorem camera_id_matching_witness:
  "cameras (fst (handle_camect_event spec_consts 100 hub1
      [(''type'', JStr ''alert''), (''cam_id'', JStr ''cam''),
       (''detected_obj'', JList [JStr ''person''])]))
     = [cam1\<lparr>last_motion := Some 100, last_detected_obj := JList [JStr ''person'']\<rparr>]
   \<and> cameras (fst (handle_camect_event spec_consts 100 hub1
      [(''type'', JStr ''offline''), (''cam_id'', JStr ''cam''), (''cam_name'', JStr ''Door'')]))
     = [cam1\<lparr>offline := True\<rparr>]
   \<and> cameras (fst (handle_camect_event spec_consts 100 hub1
      [(''type'', JStr ''online''), (''cam_id'', JStr ''cam''), (''cam_name'', JStr ''Door'')]))
     = [cam1\<lparr>offline := False\<rparr>]
   \<and> cameras (fst (handle_camect_event spec_consts 100 hub1
      [(''type'', JStr ''offline''), (''cam_id'', JStr ''cam12''), (''cam_name'', JStr ''Door'')]))
     = [cam1]"
  using camera_id_matching [of "[(''type'', JStr ''alert''), (''cam_id'', JStr ''cam''),
       (''detected_obj'', JList [JStr ''person''])]" "JStr ''alert''" "''cam''" spec_consts
       "JList [JStr ''person'']" 100 hub1]
    camera_id_matching [of "[(''type'', JStr ''offline''), (''cam_id'', JStr ''cam''),
       (''cam_name'', JStr ''Door'')]" "JStr ''offline''" "''cam''" spec_consts _ 100 hub1 "JStr ''Door''"]
    camera_id_matching [of "[(''type'', JStr ''online''), (''cam_id'', JStr ''cam''),
       (''cam_name'', JStr ''Door'')]" "JStr ''online''" "''cam''" spec_consts _ 100 hub1 "JStr ''Door''"]
    camera_id_matching [of "[(''type'', JStr ''offline''), (''cam_id'', JStr ''cam12''),
       (''cam_name'', JStr ''Door'')]" "JStr ''offline''" "''cam12''" spec_consts _ 100 hub1 "JStr ''Door''"]
  by (simp add: ATTR_MODE_def spec_consts_def sublist_Cons_right alert_write_def
      offline_write_def hub1_def cam1_def)

text \<open>
  The claim as stated fails: the record's identifier \<open>cam456\<close> is a substring of the
  event's \<open>cam_id = "hub123-cam456"\<close>, and neither the alert nor the offline event writes
  the record.
\<close>

theorem camera_id_matching_counterexample:
  "sublist (device_id cam456) ''hub123-cam456''
   \<and> cameras (fst (handle_camect_event spec_consts 100 hub123
        [(''type'', JStr ''alert''), (''cam_id'', JStr ''hub123-cam456''),
         (''cam_name'', JStr ''Door''), (''detected_obj'', JList [JStr ''person''])]))
       = [cam456]
   \<and> last_motion cam456 = None
   \<and> cameras (fst (handle_camect_event spec_consts 100 hub123
        [(''type'', JStr ''offline''), (''cam_id'', JStr ''hub123-cam456''),
         (''cam_name'', JStr ''Door'')]))
       = [cam456]
   \<and> offline cam456 = False"
  by (simp add: handle_camect_event_def handle_body_def offline_event_def then_fire_def
      fire_camera_event_def subscript_def ATTR_MODE_def spec_consts_def sublist_Cons_right
      hub123_def cam456_def hub1_def cam1_def)

text \<open>
  Claim C3. The motion sensor is on exactly when the camera has a last-motion time and
  less than 20 seconds separate it from the time of the read; at exactly 20 seconds it is
  off. The value is computed from the clock reading and the record alone.
\<close>

theorem motion_sensor_window:
  "CameraMotionSensor_is_on now cam =
     (\<exists>t. last_motion cam = Some t \<and> now - t < 20000000)
   \<and> CameraMotionSensor_is_on (t0 + 20000000) (cam\<lparr>last_motion := Some t0\<rparr>) = False
   \<and> CameraMotionSensor_is_on (t0 + 19999999) (cam\<lparr>last_motion := Some t0\<rparr>) = True
   \<and> CameraMotionSensor_is_on now (cam\<lparr>last_motion := None\<rparr>) = False"
  by (cases "last_motion cam") (auto simp: CameraMotionSensor_is_on_def)

theorem motion_sensor_window_witness:
  "CameraMotionSensor_is_on 119 (cam1\<lparr>last_motion := Some 100\<rparr>)
   \<and> \<not> CameraMotionSensor_is_on 20000100 (cam1\<lparr>last_motion := Some 100\<rparr>)
   \<and> CameraMotionSensor_is_on 20000099 (cam1\<lparr>last_motion := Some 100\<rparr>)
   \<and> \<not> CameraMotionSensor_is_on 119 cam1"
  using motion_sensor_window [of 119 "cam1\<lparr>last_motion := Some 100\<rparr>" 100]
    motion_sensor_window [of 119 cam1 100]
  by (simp add: cam1_def)

text \<open>
  Claim C4. A camera is available exactly when it is enabled (its \<open>disabled\<close> flag is
  false) and not offline; streaming, recording, the on state and the alert switch's
  availability have the same value. This holds of every record, so also of the record an
  offline or online event wrote and of one whose flags a refresh replaced.
\<close>

theorem availability_projections:
  "Camera_available cam = (\<not> truthy (disabled cam) \<and> \<not> offline cam)
   \<and> Camera_is_streaming cam = Camera_available cam
   \<and> Camera_is_recording cam = Camera_available cam
   \<and> Camera_is_on cam = Camera_available cam
   \<and> CameraAlertSwitch_available cam = Camera_available cam
   \<and> Camera_available (offline_write True cid cam)
       = (\<not> truthy (disabled cam) \<and> \<not> offline (offline_write True cid cam))
   \<and> Camera_available (offline_write False cid cam)
       = (\<not> truthy (disabled cam) \<and> \<not> offline (offline_write False cid cam))
   \<and> Camera_available (cam\<lparr>is_alert_disabled := a, disabled := d\<rparr>)
       = (\<not> truthy d \<and> \<not> offline cam)"
  by (simp add: Camera_available_def Camera_is_streaming_def Camera_is_recording_def
      Camera_is_on_def CameraAlertSwitch_available_def offline_write_def)

theorem availability_projections_witness:
  "Camera_available cam1 \<and> Camera_is_streaming cam1 \<and> Camera_is_recording cam1
   \<and> Camera_is_on cam1 \<and> CameraAlertSwitch_available cam1
   \<and> \<not> Camera_available (offline_write True ''cam1'' cam1)"
  using availability_projections [of cam1 "''cam1''"]
  by (simp add: cam1_def offline_write_def)

text \<open>
  Claim C5. An event whose \<open>type\<close> contains \<open>ATTR_MODE\<close>: (i) with \<open>desc\<close> equal to the
  session's mode, the hub is unchanged and no entity is told to refresh; (ii) with \<open>desc\<close>
  the other recognized mode, the mode becomes \<open>desc\<close> and the refresh calls are the mode
  switches of the hub, one call each; (iii) with a \<open>desc\<close> that is not a recognized mode, a
  warning is logged and the hub is unchanged. The test that the mode did not change is
  \<open>self.mode in evt["desc"]\<close>, a substring test, so (ii) needs that neither mode constant
  is a substring of the other.
\<close>

theorem mode_event_classification:
  assumes "map_of evt ''type'' = Some ty" and "str_in ATTR_MODE ty = Inr True"
  shows "(map_of evt ''desc'' = Some (JStr (mode hub))
            \<longrightarrow> fst (handle_camect_event c now hub evt) = hub
                \<and> scheduled (fst (snd (handle_camect_event c now hub evt))) = []
                \<and> snd (snd (handle_camect_event c now hub evt)) = None)
       \<and> (map_of evt ''desc'' = Some (JStr s)
            \<and> mode hub \<in> {ATTR_MODE_DEFAULT c, ATTR_MODE_HOME c}
            \<and> s \<in> {ATTR_MODE_DEFAULT c, ATTR_MODE_HOME c} \<and> s \<noteq> mode hub
            \<and> \<not> sublist (ATTR_MODE_DEFAULT c) (ATTR_MODE_HOME c)
            \<and> \<not> sublist (ATTR_MODE_HOME c) (ATTR_MODE_DEFAULT c)
            \<longrightarrow> handle_camect_event c now hub evt
                  = (hub\<lparr>mode := s\<rparr>, map ScheduleUpdate (modeswitch hub), None)
                \<and> scheduled (fst (snd (handle_camect_event c now hub evt))) = modeswitch hub)
       \<and> (map_of evt ''desc'' = Some d
            \<and> d \<noteq> JStr (ATTR_MODE_DEFAULT c) \<and> d \<noteq> JStr (ATTR_MODE_HOME c)
            \<longrightarrow> handle_camect_event c now hub evt
                  = (hub, [LogWarning ''Received mode change event to unknown mode: %s''], None))"
proof (intro conjI impI)
  assume "map_of evt ''desc'' = Some (JStr (mode hub))"
  then have "mode_event c hub evt = (hub, [], None)
             \<or> mode_event c hub evt
                 = (hub, [LogWarning ''Received mode change event to unknown mode: %s''], None)"
    by (simp add: mode_event_def subscript_def)
  then show "fst (handle_camect_event c now hub evt) = hub"
    and "scheduled (fst (snd (handle_camect_event c now hub evt))) = []"
    and "snd (snd (handle_camect_event c now hub evt)) = None"
    by (auto simp: mode_event_result [OF assms])
next
  assume h: "map_of evt ''desc'' = Some (JStr s)
            \<and> mode hub \<in> {ATTR_MODE_DEFAULT c, ATTR_MODE_HOME c}
            \<and> s \<in> {ATTR_MODE_DEFAULT c, ATTR_MODE_HOME c} \<and> s \<noteq> mode hub
            \<and> \<not> sublist (ATTR_MODE_DEFAULT c) (ATTR_MODE_HOME c)
            \<and> \<not> sublist (ATTR_MODE_HOME c) (ATTR_MODE_DEFAULT c)"
  then have "\<not> sublist (mode hub) s" by auto
  with h have "mode_event c hub evt = (hub\<lparr>mode := s\<rparr>, map ScheduleUpdate (modeswitch hub), None)"
    by (auto simp: mode_event_def subscript_def)
  then show r: "handle_camect_event c now hub evt
                  = (hub\<lparr>mode := s\<rparr>, map ScheduleUpdate (modeswitch hub), None)"
    by (simp add: mode_event_result [OF assms])
  show "scheduled (fst (snd (handle_camect_event c now hub evt))) = modeswitch hub"
    by (simp add: r scheduled_map)
next
  assume "map_of evt ''desc'' = Some d
            \<and> d \<noteq> JStr (ATTR_MODE_DEFAULT c) \<and> d \<noteq> JStr (ATTR_MODE_HOME c)"
  then have "mode_event c hub evt
               = (hub, [LogWarning ''Received mode change event to unknown mode: %s''], None)"
    by (cases d) (auto simp: mode_event_def subscript_def)
  then show "handle_camect_event c now hub evt
               = (hub, [LogWarning ''Received mode change event to unknown mode: %s''], None)"
    by (simp add: mode_event_result [OF assms])
qed

text \<open>The three cases on the hub in default mode: \<open>desc\<close> default, home, and away.\<close>

theorem mode_event_classification_witness:
  "handle_camect_event spec_consts 100 hub1 [(''type'', JStr ''mode''), (''desc'', JStr ''default'')]
     = (hub1, [], None)
   \<and> handle_camect_event spec_consts 100 hub1 [(''type'', JStr ''mode''), (''desc'', JStr ''home'')]
     = (hub1\<lparr>mode := ''home''\<rparr>, [ScheduleUpdate ''switch.camect_hub1_mode''], None)
   \<and> handle_camect_event spec_consts 100 hub1 [(''type'', JStr ''mode''), (''desc'', JStr ''away'')]
     = (hub1, [LogWarning ''Received mode change event to unknown mode: %s''], None)"
proof -
  have i: "fst (handle_camect_event spec_consts 100 hub1
                  [(''type'', JStr ''mode''), (''desc'', JStr ''default'')]) = hub1
           \<and> snd (snd (handle_camect_event spec_consts 100 hub1
                  [(''type'', JStr ''mode''), (''desc'', JStr ''default'')])) = None"
    using mode_event_classification [where evt = "[(''type'', JStr ''mode''), (''desc'', JStr ''default'')]"
        and ty = "JStr ''mode''" and hub = hub1 and c = spec_consts and now = 100]
    by (simp add: ATTR_MODE_def hub1_def)
  have ii: "handle_camect_event spec_consts 100 hub1
              [(''type'', JStr ''mode''), (''desc'', JStr ''home'')]
            = (hub1\<lparr>mode := ''home''\<rparr>, [ScheduleUpdate ''switch.camect_hub1_mode''], None)"
    using mode_event_classification [where evt = "[(''type'', JStr ''mode''), (''desc'', JStr ''home'')]"
        and ty = "JStr ''mode''" and hub = hub1 and s = "''home''" and c = spec_consts and now = 100]
    by (simp add: ATTR_MODE_def hub1_def spec_consts_def sublist_Cons_right)
  have iii: "handle_camect_event spec_consts 100 hub1
               [(''type'', JStr ''mode''), (''desc'', JStr ''away'')]
             = (hub1, [LogWarning ''Received mode change event to unknown mode: %s''], None)"
    using mode_event_classification [where evt = "[(''type'', JStr ''mode''), (''desc'', JStr ''away'')]"
        and ty = "JStr ''mode''" and hub = hub1 and c = spec_consts and d = "JStr ''away''" and now = 100]
    by (simp add: ATTR_MODE_def spec_consts_def)
  have "scheduled (fst (snd (handle_camect_event spec_consts 100 hub1
                  [(''type'', JStr ''mode''), (''desc'', JStr ''default'')]))) = []"
    using mode_event_classification [where evt = "[(''type'', JStr ''mode''), (''desc'', JStr ''default'')]"
        and ty = "JStr ''mode''" and hub = hub1 and c = spec_consts and now = 100]
    by (simp add: ATTR_MODE_def hub1_def)
  moreover have "fst (snd (handle_camect_event spec_consts 100 hub1
                  [(''type'', JStr ''mode''), (''desc'', JStr ''default'')])) = []"
    by (simp add: handle_camect_event_def handle_body_def mode_event_def subscript_def
        ATTR_MODE_def spec_consts_def hub1_def)
  ultimately show ?thesis using i ii iii
    by (simp add: prod_eq_iff)
qed

text \<open>
  Claim C6, as amended. An event classified as an alert (its \<open>type\<close> contains
  \<open>ATTR_ALERT\<close> and not \<open>ATTR_MODE\<close>) that carries a string \<open>cam_id\<close>. When it has a
  \<open>detected_obj\<close> field, every camera record whose identifier contains \<open>cam_id\<close> gets
  \<open>last_motion\<close> set to the time of processing and \<open>last_detected_obj\<close> set to the field's
  value, or to the sentinel when that value is empty or null; the calls made are, in this
  order, the refresh of each such record followed by the refreshes of its motion sensors,
  and only after all of them the log record and the one event put on the bus, whether or
  not a record matched. When no record matches, the event is put on the bus and nothing
  else is done, whether or not the event has a \<open>detected_obj\<close> field.
\<close>

theorem alert_event_handling:
  assumes "map_of evt ''type'' = Some ty"
    and "str_in ATTR_MODE ty = Inr False"
    and "str_in (ATTR_ALERT c) ty = Inr True"
    and "map_of evt ''cam_id'' = Some (JStr cid)"
  shows "(map_of evt ''detected_obj'' = Some obj
            \<longrightarrow> handle_camect_event c now hub evt =
                  (hub\<lparr>cameras := map (alert_write c now cid obj) (cameras hub)\<rparr>,
                   map ScheduleUpdate (concat (map (alert_refresh cid) (cameras hub)))
                     @ [LogInfo ''Firing camera event to bus: %s'',
                        BusFire (ATTR_CAMECT_EVENT c) (CameraDevice (id' hub) (JStr cid))
                          (ATTR_ALERT c) evt],
                   None))
       \<and> ((\<forall>cam \<in> set (cameras hub). \<not> sublist cid (device_id cam))
            \<longrightarrow> handle_camect_event c now hub evt =
                  (hub,
                   [LogInfo ''Firing camera event to bus: %s'',
                    BusFire (ATTR_CAMECT_EVENT c) (CameraDevice (id' hub) (JStr cid))
                      (ATTR_ALERT c) evt],
                   None))"
proof (intro conjI impI)
  assume "map_of evt ''detected_obj'' = Some obj"
  with assms show "handle_camect_event c now hub evt =
      (hub\<lparr>cameras := map (alert_write c now cid obj) (cameras hub)\<rparr>,
       map ScheduleUpdate (concat (map (alert_refresh cid) (cameras hub)))
         @ [LogInfo ''Firing camera event to bus: %s'',
            BusFire (ATTR_CAMECT_EVENT c) (CameraDevice (id' hub) (JStr cid))
              (ATTR_ALERT c) evt],
       None)"
    by (rule alert_event_result)
next
  assume "\<forall>cam \<in> set (cameras hub). \<not> sublist cid (device_id cam)"
  with assms show "handle_camect_event c now hub evt =
      (hub,
       [LogInfo ''Firing camera event to bus: %s'',
        BusFire (ATTR_CAMECT_EVENT c) (CameraDevice (id' hub) (JStr cid))
          (ATTR_ALERT c) evt],
       None)"
    by (rule alert_event_nomatch_result)
qed

text \<open>
  The spec's scenario with \<open>detected_obj\<close> null: the record is written, the record and its
  motion sensor are refreshed, then the event is fired. And an alert without
  \<open>detected_obj\<close> for a camera the hub does not know, which is forwarded all the same.
\<close>

theorem alert_event_handling_witness:
  "handle_camect_event spec_consts 100 hub1
      [(''type'', JStr ''alert''), (''cam_id'', JStr ''cam1''), (''detected_obj'', JNull)]
     = (hub1\<lparr>cameras :=
               [cam1\<lparr>last_motion := Some 100, last_detected_obj := JStr ''unknown''\<rparr>]\<rparr>,
        [ScheduleUpdate ''camera.camect_hub1_cam1'',
         ScheduleUpdate ''camera.camect_hub1_cam1_motion'',
         LogInfo ''Firing camera event to bus: %s'',
         BusFire ''camect_event'' (CameraDevice ''camect_hub1'' (JStr ''cam1'')) ''alert''
           [(''type'', JStr ''alert''), (''cam_id'', JStr ''cam1''), (''detected_obj'', JNull)]],
        None)
   \<and> handle_camect_event spec_consts 100 hub1
      [(''type'', JStr ''alert''), (''cam_id'', JStr ''cam9'')]
     = (hub1,
        [LogInfo ''Firing camera event to bus: %s'',
         BusFire ''camect_event'' (CameraDevice ''camect_hub1'' (JStr ''cam9'')) ''alert''
           [(''type'', JStr ''alert''), (''cam_id'', JStr ''cam9'')]],
        None)"
  using alert_event_handling [where
        evt = "[(''type'', JStr ''alert''), (''cam_id'', JStr ''cam1''), (''detected_obj'', JNull)]"
        and ty = "JStr ''alert''" and c = spec_consts and cid = "''cam1''" and obj = JNull
        and now = 100 and hub = hub1]
    alert_event_handling [where
        evt = "[(''type'', JStr ''alert''), (''cam_id'', JStr ''cam9'')]"
        and ty = "JStr ''alert''" and c = spec_consts and cid = "''cam9''"
        and now = 100 and hub = hub1]
  by (simp add: ATTR_MODE_def spec_consts_def sublist_Cons_right alert_write_def
      alert_refresh_def hub1_def cam1_def)

text \<open>
  The claim as stated fails on the spec's own scenario: when the event has no
  \<open>detected_obj\<close> key, the subscript raises \<open>KeyError\<close> after \<open>last_motion\<close> was written.
  The label stays empty, no entity is told to refresh and nothing is put on the bus.
\<close>

theorem alert_event_handling_counterexample:
  "handle_camect_event spec_consts 100 hub1
      [(''type'', JStr ''alert''), (''cam_id'', JStr ''cam1'')]
     = (hub1\<lparr>cameras := [cam1\<lparr>last_motion := Some 100\<rparr>]\<rparr>,
        [LogException (KeyError ''detected_obj'')], None)
   \<and> last_detected_obj (cam1\<lparr>last_motion := Some 100\<rparr>) \<noteq> JStr ''unknown''
   \<and> bus_fired [LogException (KeyError ''detected_obj'')] = []"
  by (simp add: handle_camect_event_def handle_body_def then_fire_def subscript_def
      ATTR_MODE_def spec_consts_def sublist_Cons_right hub1_def cam1_def)

text \<open>
  Claim C7. Turning the alert switch off calls \<open>disable_alert\<close> with the camera's
  identifier and the reason string, and writes nothing: on a camera whose alerts were
  enabled the switch still reads on after the call has succeeded.
\<close>

theorem alert_switch_turn_off_stale:
  "CameraAlertSwitch_is_on cam1 = True
   \<and> CameraAlertSwitch_async_turn_off spec_consts None cam1
       = (cam1, [ApiDisableAlert ''cam1'' ''reason''], None)
   \<and> CameraAlertSwitch_is_on (fst (CameraAlertSwitch_async_turn_off spec_consts None cam1)) = True"
  by (simp add: CameraAlertSwitch_async_turn_off_def CameraAlertSwitch_is_on_def cam1_def
      spec_consts_def)

text \<open>
  Claim C8. An event whose \<open>type\<close> contains none of the four tags is logged with a warning
  and dropped: the hub and its cameras are unchanged, nothing is put on the bus, and no
  exception leaves the call.
\<close>

theorem unhandled_event_discarded:
  assumes "map_of evt ''type'' = Some ty"
    and "str_in ATTR_MODE ty = Inr False"
    and "str_in (ATTR_ALERT c) ty = Inr False"
    and "str_in (ATTR_CAM_OFFLINE c) ty = Inr False"
    and "str_in (ATTR_CAM_ONLINE c) ty = Inr False"
  shows "handle_camect_event c now hub evt
           = (hub, [LogWarning ''Got an unhandled event type from Camect: %s''], None)
       \<and> bus_fired (fst (snd (handle_camect_event c now hub evt))) = []"
  using assms by (simp add: handle_camect_event_def handle_body_def subscript_def)

theorem unhandled_event_discarded_witness:
  "handle_camect_event spec_consts 100 hub1 [(''type'', JStr ''reboot''), (''cam_id'', JStr ''cam1'')]
     = (hub1, [LogWarning ''Got an unhandled event type from Camect: %s''], None)
   \<and> bus_fired (fst (snd (handle_camect_event spec_consts 100 hub1
         [(''type'', JStr ''reboot''), (''cam_id'', JStr ''cam1'')]))) = []"
  using unhandled_event_discarded [of
      "[(''type'', JStr ''reboot''), (''cam_id'', JStr ''cam1'')]" "JStr ''reboot''"
      spec_consts 100 hub1]
  by (simp add: ATTR_MODE_def spec_consts_def sublist_Cons_right)

text \<open>
  Claim C9. After \<open>update_mode_property\<close> the session's mode is the \<open>mode\<close> field of the
  hub's metadata when that field is one of the two recognized modes, and the default mode
  for every other value of the field.
\<close>

theorem mode_normalization:
  assumes "map_of (info hub) ''mode'' = Some v"
  shows "update_mode_property c hub =
           Inr (hub\<lparr>mode := (if v = JStr (ATTR_MODE_DEFAULT c) then ATTR_MODE_DEFAULT c
                              else if v = JStr (ATTR_MODE_HOME c) then ATTR_MODE_HOME c
                              else ATTR_MODE_DEFAULT c)\<rparr>)"
  using assms by (cases v) (auto simp: update_mode_property_def subscript_def)

text \<open>Metadata reporting home, and metadata reporting a mode the code does not know.\<close>

theorem mode_normalization_witness:
  "update_mode_property spec_consts (update_hub_info [(''mode'', JStr ''home'')] hub1)
     = Inr (hub1\<lparr>info := [(''mode'', JStr ''home'')], mode := ''home''\<rparr>)
   \<and> update_mode_property spec_consts
         (update_hub_info [(''mode'', JStr ''away'')] (hub1\<lparr>mode := ''home''\<rparr>))
     = Inr (hub1\<lparr>info := [(''mode'', JStr ''away'')], mode := ''default''\<rparr>)"
  using mode_normalization [of "update_hub_info [(''mode'', JStr ''home'')] hub1"
      "JStr ''home''" spec_consts]
    mode_normalization [of "update_hub_info [(''mode'', JStr ''away'')] (hub1\<lparr>mode := ''home''\<rparr>)"
      "JStr ''away''" spec_consts]
  by (simp add: update_hub_info_def spec_consts_def hub1_def)

text \<open>
  Claim C10. The mode switch reads on exactly when the session is in the default mode;
  turning it on calls \<open>set_mode\<close> with the default mode and turning it off calls it with
  the home mode. \<open>is_on\<close> is \<open>self.hub.mode in ATTR_MODE_DEFAULT\<close>, a substring test, so the
  statement is for a session whose mode is one of the two recognized modes, the home mode
  not being a substring of the default one.
\<close>

theorem mode_switch_polarity:
  assumes "mode hub \<in> {ATTR_MODE_DEFAULT c, ATTR_MODE_HOME c}"
    and "\<not> sublist (ATTR_MODE_HOME c) (ATTR_MODE_DEFAULT c)"
  shows "HubModeSwitch_is_on c hub = (mode hub = ATTR_MODE_DEFAULT c)
       \<and> fst (snd (HubModeSwitch_async_turn_on c api hub))
           = [ApiSetMode (ATTR_MODE_DEFAULT c) (ATTR_MODE_REASON c)]
       \<and> fst (snd (HubModeSwitch_async_turn_off c api hub))
           = [ApiSetMode (ATTR_MODE_HOME c) (ATTR_MODE_REASON c)]"
  using assms
  by (auto simp: HubModeSwitch_is_on_def HubModeSwitch_async_turn_on_def
      HubModeSwitch_async_turn_off_def Let_def split: option.splits sum.splits)

theorem mode_switch_polarity_witness:
  "HubModeSwitch_is_on spec_consts hub1
   \<and> \<not> HubModeSwitch_is_on spec_consts (hub1\<lparr>mode := ''home''\<rparr>)
   \<and> fst (snd (HubModeSwitch_async_turn_on spec_consts None hub1))
       = [ApiSetMode ''default'' ''reason'']
   \<and> fst (snd (HubModeSwitch_async_turn_off spec_consts None hub1))
       = [ApiSetMode ''home'' ''reason'']"
  using mode_switch_polarity [of hub1 spec_consts None]
    mode_switch_polarity [of "hub1\<lparr>mode := ''home''\<rparr>" spec_consts None]
  by (simp add: spec_consts_def hub1_def sublist_Cons_right)

end
